theory Spec2Isabelle
  imports Main
begin

section \<open>Data model\<close>

text \<open>
  The program is one Python module, \<^verbatim>\<open>main.py\<close>. Its dictionaries are read with
  \<^verbatim>\<open>.get\<close> only, so each is a record of optional fields: a field is \<open>None\<close> when the
  key is missing. For \<^verbatim>\<open>videoId\<close>, \<^verbatim>\<open>cookies_filepath\<close>, \<^verbatim>\<open>total_bytes\<close>,
  \<^verbatim>\<open>total_bytes_estimate\<close> and \<^verbatim>\<open>webpage_url\<close> the source tests the looked-up value for
  truthiness, so for them \<open>None\<close> also stands for the Python value \<^verbatim>\<open>None\<close>.
  Python integers are unbounded: \<open>int\<close>.
\<close>

record track =
  title :: "string option"
  videoId :: "string option"

text \<open>
  What the program prints. A message keeps the data the f-string interpolates; the
  level is the \<^verbatim>\<open>logging\<close> function called, \<open>Tqdm_write\<close> is \<^verbatim>\<open>tqdm.write\<close>.
\<close>

datatype level = INFO | WARNING | ERROR

datatype message =
    Loaded_environment
  | Missing_environment_variables "string list"
  | Exiting_due_to_configuration_error
  | Initializing_api
  | Retrieving_playlist string
  | Retrieved_songs nat
  | Scanning_downloaded
  | Found_downloaded nat
  | Building_the_download_queue
  | Skipping_track string
  | Queued string
  | Already_downloaded string
  | Total_new_songs nat
  | No_new_songs
  | Starting_first_attempt
  | First_attempt_completed
  | Error_downloading "string option" string
  | Retrying_failed nat
  | After_retry_still_failed nat "string list"
  | All_failed_succeeded_on_retry
  | Downloads_failed nat "string list"
  | All_downloads_completed
  | Added_to_playlist string
  | Finished_downloading string

datatype printed = Log level message | Tqdm_write message

fun is_warning :: "printed \<Rightarrow> bool" where
  "is_warning (Log WARNING m) = True"
| "is_warning _ = False"

fun is_error :: "printed \<Rightarrow> bool" where
  "is_error (Log ERROR m) = True"
| "is_error _ = False"

section \<open>Strings\<close>

text \<open>Python's \<^verbatim>\<open>a.startswith(b)\<close> and \<^verbatim>\<open>b in a\<close> on strings.\<close>

fun starts_with :: "string \<Rightarrow> string \<Rightarrow> bool" where
  "starts_with s [] = True"
| "starts_with [] (c # cs) = False"
| "starts_with (x # xs) (c # cs) = (x = c \<and> starts_with xs cs)"

fun str_contains :: "string \<Rightarrow> string \<Rightarrow> bool" where
  "str_contains [] sub = (sub = [])"
| "str_contains (x # xs) sub = (starts_with (x # xs) sub \<or> str_contains xs sub)"

section \<open>Queue builder\<close>

text \<open>
  \<^verbatim>\<open>not video_id\<close>: the looked-up identifier is \<^verbatim>\<open>None\<close> (also when the key is
  missing) or the empty string.
\<close>

definition missing_video_id :: "track \<Rightarrow> bool" where
  "missing_video_id t = (case videoId t of None \<Rightarrow> True | Some v \<Rightarrow> v = [])"

definition track_title :: "track \<Rightarrow> string" where
  "track_title t = (case title t of None \<Rightarrow> ''Unknown Title'' | Some s \<Rightarrow> s)"

definition token :: "string \<Rightarrow> string" where
  "token video_id = ''['' @ video_id @ '']''"

definition watch_url :: "string \<Rightarrow> string" where
  "watch_url video_id = ''https://music.youtube.com/watch?v='' @ video_id"

text \<open>\<^verbatim>\<open>any(f"[{video_id}]" in filename for filename in already_downloaded)\<close>\<close>

fun any_contains :: "string list \<Rightarrow> string \<Rightarrow> bool" where
  "any_contains [] tok = False"
| "any_contains (filename # rest) tok = (str_contains filename tok \<or> any_contains rest tok)"

text \<open>
  The loop of \<^verbatim>\<open>build_download_queue\<close>, with the queue and the output so far as
  accumulators.
\<close>

fun build_loop :: "track list \<Rightarrow> string list \<Rightarrow> string list \<Rightarrow> printed list
    \<Rightarrow> string list \<times> printed list" where
  "build_loop [] already_downloaded queue out = (queue, out)"
| "build_loop (t # ts) already_downloaded queue out =
     (let ttl = track_title t in
      case videoId t of
        None \<Rightarrow> build_loop ts already_downloaded queue (out @ [Log WARNING (Skipping_track ttl)])
      | Some video_id \<Rightarrow>
          if video_id = [] then
            build_loop ts already_downloaded queue (out @ [Log WARNING (Skipping_track ttl)])
          else if \<not> any_contains already_downloaded (token video_id) then
            build_loop ts already_downloaded (queue @ [watch_url video_id])
              (out @ [Log INFO (Queued ttl)])
          else
            build_loop ts already_downloaded queue (out @ [Log INFO (Already_downloaded ttl)]))"

definition build_download_queue :: "track list \<Rightarrow> string list \<Rightarrow> string list \<times> printed list" where
  "build_download_queue tracks already_downloaded =
     (case build_loop tracks already_downloaded [] [Log INFO Building_the_download_queue] of
        (queue, out) \<Rightarrow> (queue, out @ [Log INFO (Total_new_songs (length queue))]))"

section \<open>Paths\<close>

text \<open>
  \<^verbatim>\<open>Path(filepath).stem\<close> of the standard library, on POSIX paths: the path is split
  at \<^verbatim>\<open>/\<close>, empty components and \<^verbatim>\<open>.\<close> components are dropped, the name is the
  last component left (the empty string when none is), and the stem is the name up to
  its last dot, provided that dot is neither the first nor the last character.
\<close>

fun split_on :: "char \<Rightarrow> string \<Rightarrow> string list" where
  "split_on sep [] = [[]]"
| "split_on sep (c # cs) =
     (if c = sep then [] # split_on sep cs
      else (case split_on sep cs of [] \<Rightarrow> [[c]] | w # ws \<Rightarrow> (c # w) # ws))"

definition path_name :: "string \<Rightarrow> string" where
  "path_name p =
     (case rev (filter (\<lambda>x. x \<noteq> [] \<and> x \<noteq> ''.'') (split_on (CHR ''/'') p)) of
        [] \<Rightarrow> []
      | x # _ \<Rightarrow> x)"

text \<open>\<^verbatim>\<open>s.rfind(c)\<close>: the highest index of \<open>c\<close> in \<open>s\<close>, or \<open>-1\<close>.\<close>

fun rfind_from :: "char \<Rightarrow> string \<Rightarrow> int \<Rightarrow> int \<Rightarrow> int" where
  "rfind_from c [] i found = found"
| "rfind_from c (x # xs) i found = rfind_from c xs (i + 1) (if x = c then i else found)"

definition rfind :: "string \<Rightarrow> char \<Rightarrow> int" where
  "rfind s c = rfind_from c s 0 (- 1)"

definition stem :: "string \<Rightarrow> string" where
  "stem p =
     (let name = path_name p; i = rfind name (CHR ''.'') in
      if 0 < i \<and> i < int (length name) - 1 then take (nat i) name else name)"

section \<open>Progress bars, events and the program state\<close>

text \<open>
  A \<^verbatim>\<open>tqdm\<close> bar, as far as the program uses one: its total, its description, its
  counter \<^verbatim>\<open>n\<close> (which the program reads back) and whether it was closed.
  \<^verbatim>\<open>update(k)\<close> adds \<open>k\<close> to the counter. The truth value of a bar whose total is
  not \<^verbatim>\<open>None\<close> is \<^verbatim>\<open>total > 0\<close> (tqdm defines \<^verbatim>\<open>__bool__\<close> so); the program never
  builds a bar without a total.
\<close>

record tqdm =
  tqdm_total :: int
  tqdm_desc :: string
  tqdm_n :: int
  tqdm_closed :: bool

definition tqdm_new :: "int \<Rightarrow> string \<Rightarrow> tqdm" where
  "tqdm_new tot d = \<lparr>tqdm_total = tot, tqdm_desc = d, tqdm_n = 0, tqdm_closed = False\<rparr>"

definition tqdm_update :: "tqdm \<Rightarrow> int \<Rightarrow> tqdm" where
  "tqdm_update bar k = bar\<lparr>tqdm_n := tqdm_n bar + k\<rparr>"

definition tqdm_close :: "tqdm \<Rightarrow> tqdm" where
  "tqdm_close bar = bar\<lparr>tqdm_closed := True\<rparr>"

definition tqdm_bool :: "tqdm \<Rightarrow> bool" where
  "tqdm_bool bar = (0 < tqdm_total bar)"

text \<open>
  The dictionary the download engine passes to the hook, and its \<^verbatim>\<open>info_dict\<close>
  (whose \<^verbatim>\<open>title\<close> key is the field \<open>info_title\<close>).
\<close>

record info =
  info_title :: "string option"
  webpage_url :: "string option"

record event =
  status :: "string option"
  total_bytes :: "int option"
  total_bytes_estimate :: "int option"
  downloaded_bytes :: "int option"
  info_dict :: "info option"
  filename :: "string option"
  error :: "string option"

text \<open>
  The options dictionary of \<^verbatim>\<open>create_youtube_dl_options\<close>; its \<^verbatim>\<open>progress_hooks\<close>
  entry is always the one hook of this module.
\<close>

record ytdl_opts =
  format :: string
  paths_home :: "string option"
  quiet :: bool
  noplaylist :: bool
  postprocessors :: "(string \<times> string) list list"
  ignoreerrors :: bool
  cookiefile :: "string option"

record config =
  client_id :: "string option"
  client_secret :: "string option"
  oauth2_filepath :: "string option"
  cookies_filepath :: "string option"
  music_folderpath :: "string option"
  playlist_filepath :: "string option"
  playlist_id :: "string option"

datatype exn = AttributeError | TypeError | ValueError

text \<open>
  The module's globals, and what the program does to the outside: the text files it
  writes (a path mapped to its content; every write succeeds), the lines it prints and
  the calls of \<^verbatim>\<open>YoutubeDL(opts).download(urls)\<close> it makes.
\<close>

record state =
  global_progress_bar :: "tqdm option"
  individual_progress_bar :: "tqdm option"
  PLAYLIST_FILEPATH :: "string option"
  failed_urls :: "string list"
  files :: "string \<Rightarrow> string option"
  console :: "printed list"
  downloads :: "(ytdl_opts \<times> string list) list"

definition say :: "printed \<Rightarrow> state \<Rightarrow> state" where
  "say line s = s\<lparr>console := console s @ [line]\<rparr>"

section \<open>Options for the download engine\<close>

text \<open>\<^verbatim>\<open>config.get("cookies_filepath")\<close> as a condition: set and not empty.\<close>

definition cookies_provided :: "config \<Rightarrow> bool" where
  "cookies_provided cfg = (case cookies_filepath cfg of None \<Rightarrow> False | Some p \<Rightarrow> p \<noteq> [])"

definition create_youtube_dl_options :: "config \<Rightarrow> bool \<Rightarrow> ytdl_opts" where
  "create_youtube_dl_options cfg use_cookies =
     (let opts = \<lparr>format = ''mp3/bestaudio/best'',
                  paths_home = music_folderpath cfg,
                  quiet = True,
                  noplaylist = True,
                  postprocessors =
                    [[(''key'', ''FFmpegExtractAudio''), (''preferredcodec'', ''mp3''),
                      (''preferredquality'', ''320'')],
                     [(''key'', ''EmbedThumbnail'')],
                     [(''key'', ''FFmpegMetadata'')]],
                  ignoreerrors = True,
                  cookiefile = None\<rparr>
      in if use_cookies \<and> cookies_provided cfg
         then opts\<lparr>cookiefile := cookies_filepath cfg\<rparr> else opts)"

section \<open>Playlist file and progress hook\<close>

definition playlist_entry :: "string \<Rightarrow> string" where
  "playlist_entry fname = ''/srv/music/'' @ fname @ [CHR 0x0A]"

text \<open>\<^verbatim>\<open>open(path, "a")\<close> creates a missing file; \<^verbatim>\<open>open(None, "a")\<close> raises.\<close>

definition append_file ::
  "string \<Rightarrow> string \<Rightarrow> (string \<Rightarrow> string option) \<Rightarrow> (string \<Rightarrow> string option)" where
  "append_file path text fs =
     fs(path \<mapsto> (case fs path of None \<Rightarrow> [] | Some old \<Rightarrow> old) @ text)"

definition update_playlist :: "string \<Rightarrow> string \<Rightarrow> state \<Rightarrow> exn + state" where
  "update_playlist fname ttl s =
     (case PLAYLIST_FILEPATH s of
        None \<Rightarrow> Inl TypeError
      | Some path \<Rightarrow>
          Inr (say (Tqdm_write (Added_to_playlist ttl))
                (s\<lparr>files := append_file path (playlist_entry fname) (files s)\<rparr>)))"

text \<open>\<^verbatim>\<open>d.get("total_bytes") or d.get("total_bytes_estimate") or 0\<close>\<close>

definition event_total :: "event \<Rightarrow> int" where
  "event_total d =
     (case total_bytes d of
        Some t \<Rightarrow> if t \<noteq> 0 then t else
          (case total_bytes_estimate d of Some e \<Rightarrow> e | None \<Rightarrow> 0)
      | None \<Rightarrow> (case total_bytes_estimate d of Some e \<Rightarrow> e | None \<Rightarrow> 0))"

text \<open>\<^verbatim>\<open>d.get("info_dict", {}).get(key, default)\<close>\<close>

definition event_title :: "event \<Rightarrow> string \<Rightarrow> string" where
  "event_title d dflt =
     (case info_dict d of None \<Rightarrow> dflt
      | Some i \<Rightarrow> (case info_title i of None \<Rightarrow> dflt | Some t \<Rightarrow> t))"

definition event_url :: "event \<Rightarrow> string option" where
  "event_url d = (case info_dict d of None \<Rightarrow> None | Some i \<Rightarrow> webpage_url i)"

definition event_downloaded :: "event \<Rightarrow> int" where
  "event_downloaded d = (case downloaded_bytes d of None \<Rightarrow> 0 | Some b \<Rightarrow> b)"

text \<open>
  \<^verbatim>\<open>if individual_progress_bar: individual_progress_bar.close();
  individual_progress_bar = None\<close>
\<close>

definition close_individual :: "state \<Rightarrow> state" where
  "close_individual s =
     (case individual_progress_bar s of
        None \<Rightarrow> s
      | Some bar \<Rightarrow> if tqdm_bool bar then s\<lparr>individual_progress_bar := None\<rparr> else s)"

text \<open>\<^verbatim>\<open>global_progress_bar.update(1)\<close>; without a bar the attribute lookup raises.\<close>

definition tick_global :: "state \<Rightarrow> exn + state" where
  "tick_global s =
     (case global_progress_bar s of
        None \<Rightarrow> Inl AttributeError
      | Some g \<Rightarrow> Inr (s\<lparr>global_progress_bar := Some (tqdm_update g 1)\<rparr>))"

text \<open>\<^verbatim>\<open>if failed_url and failed_url not in failed_urls: failed_urls.append(failed_url)\<close>\<close>

definition record_failure :: "string option \<Rightarrow> state \<Rightarrow> state" where
  "record_failure failed_url s =
     (case failed_url of
        None \<Rightarrow> s
      | Some u \<Rightarrow>
          if u \<noteq> [] \<and> u \<notin> set (failed_urls s)
          then s\<lparr>failed_urls := failed_urls s @ [u]\<rparr> else s)"

definition progress_hook :: "event \<Rightarrow> state \<Rightarrow> exn + state" where
  "progress_hook d s =
     (if status d = Some ''downloading'' then
        (case individual_progress_bar s of
           None \<Rightarrow>
             Inr (s\<lparr>individual_progress_bar :=
                      Some (tqdm_new (event_total d)
                              (''Downloading: '' @ event_title d ''Downloading''))\<rparr>)
         | Some bar \<Rightarrow>
             Inr (s\<lparr>individual_progress_bar :=
                      Some (tqdm_update bar (event_downloaded d - tqdm_n bar))\<rparr>))
      else if status d = Some ''finished'' then
        (case tick_global (close_individual s) of
           Inl e \<Rightarrow> Inl e
         | Inr s1 \<Rightarrow>
             (let filepath = (case filename d of None \<Rightarrow> [] | Some f \<Rightarrow> f);
                  fname = stem filepath @ ''.mp3'';
                  ttl = event_title d ''Unknown Title''
              in case update_playlist fname ttl s1 of
                   Inl e \<Rightarrow> Inl e
                 | Inr s2 \<Rightarrow> Inr (say (Tqdm_write (Finished_downloading ttl)) s2)))
      else if status d = Some ''error'' then
        (let s1 = close_individual s;
             error_msg = (case error d of None \<Rightarrow> ''Unknown error'' | Some m \<Rightarrow> m);
             failed_url = event_url d;
             s2 = say (Log ERROR (Error_downloading failed_url error_msg)) s1
         in tick_global (record_failure failed_url s2))
      else Inr s)"

section \<open>Download passes and the main program\<close>

text \<open>
  The download engine is outside the program: \<open>ydl opts urls\<close> is the sequence of
  events it hands to the hook when called with these options on these URLs.
\<close>

fun run_hooks :: "event list \<Rightarrow> state \<Rightarrow> exn + state" where
  "run_hooks [] s = Inr s"
| "run_hooks (d # ds) s =
     (case progress_hook d s of Inl e \<Rightarrow> Inl e | Inr s' \<Rightarrow> run_hooks ds s')"

definition close_global :: "state \<Rightarrow> exn + state" where
  "close_global s =
     (case global_progress_bar s of
        None \<Rightarrow> Inl AttributeError
      | Some g \<Rightarrow> Inr (s\<lparr>global_progress_bar := Some (tqdm_close g)\<rparr>))"

definition download_songs ::
  "(ytdl_opts \<Rightarrow> string list \<Rightarrow> event list) \<Rightarrow> string list \<Rightarrow> ytdl_opts \<Rightarrow> state
     \<Rightarrow> exn + state" where
  "download_songs ydl songs_to_download youtube_dl_opts s =
     (let total_songs = int (length songs_to_download);
          s1 = s\<lparr>global_progress_bar := Some (tqdm_new total_songs ''Overall Progress''),
                 downloads := downloads s @ [(youtube_dl_opts, songs_to_download)]\<rparr>
      in case run_hooks (ydl youtube_dl_opts songs_to_download) s1 of
           Inl e \<Rightarrow> Inl e
         | Inr s2 \<Rightarrow> close_global s2)"

text \<open>
  \<^verbatim>\<open>load_configuration\<close>, on the environment after \<^verbatim>\<open>load_dotenv\<close>; \<open>Inl\<close> is the
  \<^verbatim>\<open>ValueError\<close>, with the missing keys that are logged before it.
\<close>

definition load_configuration :: "(string \<Rightarrow> string option) \<Rightarrow> string list + config" where
  "load_configuration env =
     (let cfg = \<lparr>client_id = env ''OAUTH2_CLIENT_ID'',
                 client_secret = env ''OAUTH2_CLIENT_SECRET'',
                 oauth2_filepath = env ''OAUTH2_FILEPATH'',
                 cookies_filepath = env ''COOKIES_FILEPATH'',
                 music_folderpath = env ''MUSIC_FOLDERPATH'',
                 playlist_filepath = env ''PLAYLIST_FILEPATH'',
                 playlist_id = env ''PLAYLIST_ID''\<rparr>;
          missing = map fst (filter (\<lambda>(key, v). v = None)
                      [(''client_id'', client_id cfg),
                       (''client_secret'', client_secret cfg),
                       (''oauth2_filepath'', oauth2_filepath cfg),
                       (''music_folderpath'', music_folderpath cfg),
                       (''playlist_filepath'', playlist_filepath cfg),
                       (''playlist_id'', playlist_id cfg)])
      in if missing \<noteq> [] then Inl missing else Inr cfg)"

text \<open>
  The inputs of a run: the environment, the tracks the playlist service returns, the
  names of the \<^verbatim>\<open>*.mp3\<close> files of the music folder, the download engine and the text
  files present at the start.
\<close>

record world =
  environ :: "string \<Rightarrow> string option"
  playlist_tracks :: "track list"
  mp3_files :: "string list"
  ydl_events :: "ytdl_opts \<Rightarrow> string list \<Rightarrow> event list"
  initial_files :: "string \<Rightarrow> string option"

datatype ending = Returned | Sys_exit int

definition initial_state :: "world \<Rightarrow> state" where
  "initial_state w =
     \<lparr>global_progress_bar = None, individual_progress_bar = None,
      PLAYLIST_FILEPATH = None, failed_urls = [], files = initial_files w,
      console = [], downloads = []\<rparr>"

text \<open>The retry block of \<^verbatim>\<open>main\<close> (lines 246 to 267), entered after the first pass.\<close>

definition after_first_pass :: "world \<Rightarrow> config \<Rightarrow> state \<Rightarrow> exn + (ending \<times> state)" where
  "after_first_pass w cfg s =
     (if failed_urls s \<noteq> [] \<and> cookies_provided cfg then
        (let retry_list = failed_urls s;
             s1 = s\<lparr>failed_urls := []\<rparr>;
             s2 = say (Log INFO (Retrying_failed (length retry_list))) s1;
             ytdl_opts_retry = create_youtube_dl_options cfg True
         in case download_songs (ydl_events w) retry_list ytdl_opts_retry s2 of
              Inl e \<Rightarrow> Inl e
            | Inr s3 \<Rightarrow>
                (let s4 = (if failed_urls s3 \<noteq> []
                           then say (Log ERROR (After_retry_still_failed
                                  (length (failed_urls s3)) (failed_urls s3))) s3
                           else say (Log INFO All_failed_succeeded_on_retry) s3)
                 in Inr (Returned, say (Log INFO All_downloads_completed) s4)))
      else if failed_urls s \<noteq> [] then
        Inr (Returned, say (Log INFO All_downloads_completed)
               (say (Log ERROR (Downloads_failed (length (failed_urls s)) (failed_urls s))) s))
      else Inr (Returned, say (Log INFO All_downloads_completed) s))"

definition main :: "world \<Rightarrow> exn + (ending \<times> state)" where
  "main w =
     (let s0 = say (Log INFO Loaded_environment) (initial_state w) in
      case load_configuration (environ w) of
        Inl missing \<Rightarrow>
          Inr (Sys_exit 1,
               say (Log ERROR Exiting_due_to_configuration_error)
                 (say (Log ERROR (Missing_environment_variables missing)) s0))
      | Inr cfg \<Rightarrow>
          (let s1 = s0\<lparr>PLAYLIST_FILEPATH := playlist_filepath cfg\<rparr>;
               s2 = say (Log INFO Initializing_api) s1;
               s3 = say (Log INFO (Retrieving_playlist
                      (case playlist_id cfg of None \<Rightarrow> ''None'' | Some i \<Rightarrow> i))) s2;
               tracks = playlist_tracks w;
               s4 = say (Log INFO (Retrieved_songs (length tracks))) s3;
               s5 = say (Log INFO Scanning_downloaded) s4;
               downloaded_files = mp3_files w;
               s6 = say (Log INFO (Found_downloaded (length downloaded_files))) s5;
               (songs_to_download, lines) = build_download_queue tracks downloaded_files;
               s7 = s6\<lparr>console := console s6 @ lines\<rparr>
           in if songs_to_download = [] then
                Inr (Sys_exit 0, say (Log INFO No_new_songs) s7)
              else
                (let ytdl_opts = create_youtube_dl_options cfg False;
                     s8 = say (Log INFO Starting_first_attempt) s7
                 in case download_songs (ydl_events w) songs_to_download ytdl_opts s8 of
                      Inl e \<Rightarrow> Inl e
                    | Inr s9 \<Rightarrow>
                        after_first_pass w cfg (say (Log INFO First_attempt_completed) s9))))"

section \<open>Example inputs\<close>

definition example_tracks :: "track list" where
  "example_tracks =
     [\<lparr>title = Some ''t1'', videoId = Some ''id1''\<rparr>,
      \<lparr>title = Some ''t2'', videoId = Some ''id2''\<rparr>,
      \<lparr>title = None, videoId = None\<rparr>,
      \<lparr>title = Some ''t4'', videoId = Some []\<rparr>]"

section \<open>Properties of the queue builder\<close>

lemma starts_with_iff: "starts_with s sub \<longleftrightarrow> (\<exists>q. s = sub @ q)"
  by (induction s sub rule: starts_with.induct) auto

lemma str_contains_iff: "str_contains s sub \<longleftrightarrow> (\<exists>p q. s = p @ sub @ q)"
proof (induction s)
  case Nil
  then show ?case by auto
next
  case (Cons x xs)
  show ?case
  proof
    assume "str_contains (x # xs) sub"
    then consider "starts_with (x # xs) sub" | "str_contains xs sub" by auto
    then show "\<exists>p q. x # xs = p @ sub @ q"
    proof cases
      case 1
      then obtain q where "x # xs = sub @ q" by (auto simp: starts_with_iff)
      then have "x # xs = [] @ sub @ q" by simp
      then show ?thesis by blast
    next
      case 2
      then obtain p q where "xs = p @ sub @ q" using Cons.IH by auto
      then have "x # xs = (x # p) @ sub @ q" by simp
      then show ?thesis by blast
    qed
  next
    assume "\<exists>p q. x # xs = p @ sub @ q"
    then obtain p q where pq: "x # xs = p @ sub @ q" by blast
    show "str_contains (x # xs) sub"
    proof (cases p)
      case Nil
      with pq have "starts_with (x # xs) sub" by (auto simp: starts_with_iff)
      then show ?thesis by simp
    next
      case (Cons a p')
      with pq have "xs = p' @ sub @ q" by simp
      then have "str_contains xs sub" using Cons.IH by blast
      then show ?thesis by simp
    qed
  qed
qed

lemma any_contains_iff:
  "any_contains fs tok \<longleftrightarrow> (\<exists>f \<in> set fs. \<exists>p q. f = p @ tok @ q)"
  by (induction fs) (auto simp: str_contains_iff)

lemma build_loop_queue:
  "fst (build_loop ts fs queue out) =
     queue @ map (\<lambda>t. watch_url (the (videoId t)))
       (filter (\<lambda>t. \<not> missing_video_id t \<and> \<not> any_contains fs (token (the (videoId t)))) ts)"
  by (induction ts arbitrary: queue out)
     (auto simp: Let_def missing_video_id_def split: option.splits)

lemma build_loop_warnings:
  "filter is_warning (snd (build_loop ts fs queue out)) =
     filter is_warning out @
     map (\<lambda>t. Log WARNING (Skipping_track (track_title t))) (filter missing_video_id ts)"
  by (induction ts arbitrary: queue out)
     (auto simp: Let_def missing_video_id_def split: option.splits)

lemma build_loop_errors:
  "filter is_error (snd (build_loop ts fs queue out)) = filter is_error out"
  by (induction ts arbitrary: queue out)
     (auto simp: Let_def split: option.splits)

text \<open>
  Claim C1. For every track list and every list of local filenames,
  \<^verbatim>\<open>build_download_queue\<close> returns exactly, in playlist order, the watch URLs of the
  tracks whose identifier is present and whose bracketed token is not a substring of any
  local filename. An identifier is present when the track is not one the source skips
  as "missing video ID": the lookup gives neither \<^verbatim>\<open>None\<close> nor the empty string. Each
  track without identifier gives one warning, in playlist order, and the function prints
  nothing at error level; being a total function it raises nothing.
\<close>

theorem build_download_queue_exact:
  "fst (build_download_queue tracks fs) =
     map (\<lambda>t. ''https://music.youtube.com/watch?v='' @ the (videoId t))
       (filter (\<lambda>t. \<not> missing_video_id t \<and>
                  \<not> (\<exists>f \<in> set fs. \<exists>p q. f = p @ ''['' @ the (videoId t) @ '']'' @ q))
          tracks)
   \<and> filter is_warning (snd (build_download_queue tracks fs)) =
       map (\<lambda>t. Log WARNING (Skipping_track (track_title t))) (filter missing_video_id tracks)
   \<and> filter is_error (snd (build_download_queue tracks fs)) = []"
proof -
  obtain queue out where
    loop: "build_loop tracks fs [] [Log INFO Building_the_download_queue] = (queue, out)"
    by (cases "build_loop tracks fs [] [Log INFO Building_the_download_queue]")
  have q: "queue = map (\<lambda>t. watch_url (the (videoId t)))
       (filter (\<lambda>t. \<not> missing_video_id t \<and> \<not> any_contains fs (token (the (videoId t)))) tracks)"
    using build_loop_queue [of tracks fs "[]" "[Log INFO Building_the_download_queue]"] loop
    by simp
  have w: "filter is_warning out =
       map (\<lambda>t. Log WARNING (Skipping_track (track_title t))) (filter missing_video_id tracks)"
    using build_loop_warnings [of tracks fs "[]" "[Log INFO Building_the_download_queue]"] loop
    by simp
  have e: "filter is_error out = []"
    using build_loop_errors [of tracks fs "[]" "[Log INFO Building_the_download_queue]"] loop
    by simp
  have r: "build_download_queue tracks fs =
       (queue, out @ [Log INFO (Total_new_songs (length queue))])"
    by (simp add: build_download_queue_def loop)
  show ?thesis
    using q w e by (simp add: r any_contains_iff token_def watch_url_def)
qed

text \<open>
  The scenario of the specification: two tracks, the first already in the music folder;
  then a track without identifier and one with an empty identifier.
\<close>

lemma example_queue:
  "build_download_queue example_tracks [''t1 [id1].mp3''] =
     ([''https://music.youtube.com/watch?v=id2''],
      [Log INFO Building_the_download_queue, Log INFO (Already_downloaded ''t1''),
       Log INFO (Queued ''t2''), Log WARNING (Skipping_track ''Unknown Title''),
       Log WARNING (Skipping_track ''t4''), Log INFO (Total_new_songs 1)])"
  by (simp add: example_tracks_def build_download_queue_def track_title_def token_def
        watch_url_def)

theorem build_download_queue_exact_witness:
  "fst (build_download_queue example_tracks [''t1 [id1].mp3'']) =
     [''https://music.youtube.com/watch?v=id2'']
   \<and> filter is_warning (snd (build_download_queue example_tracks [''t1 [id1].mp3''])) =
     [Log WARNING (Skipping_track ''Unknown Title''), Log WARNING (Skipping_track ''t4'')]
   \<and> filter is_error (snd (build_download_queue example_tracks [''t1 [id1].mp3''])) = []"
  using build_download_queue_exact [of example_tracks "[''t1 [id1].mp3'']"]
  by (simp add: example_queue)

end
